theory Spec2Isabelle
  imports Main
begin

section \<open>Data model\<close>

text \<open>
  The script \<^verbatim>\<open>main.py\<close> compresses a video with an external transcoder and uploads the
  result through the Webflow client. Everything the script reads from outside (the file
  system, the transcoder, the terminal, the remote service, the storage endpoint) is an
  explicit input of the model; everything it does to the outside (requests, sleeps, the
  prompt) is recorded, in order, in a list of events.
\<close>

type_synonym ident = string
type_synonym bytes = "char list"

text \<open>The exceptions that the modelled calls can raise.\<close>

datatype exn =
  RemoteServiceError | TransportError | OSError | FileNotFoundError | ZeroDivisionError | EOFError

text \<open>
  A folder of the remote listing. \<^verbatim>\<open>getattr(folder, 'display_name', None)\<close> may find no
  name, hence the option.
\<close>

record folder =
  folder_id :: ident
  display_name :: "string option"

text \<open>
  An asset of the remote listing, with the three URL attributes the poller probes with
  \<^verbatim>\<open>getattr(..., None)\<close>.
\<close>

record asset =
  asset_id :: ident
  original_url :: "string option"
  hosted_url :: "string option"
  url :: "string option"

text \<open>
  The pre-signed form fields of an upload session (\<^verbatim>\<open>upload_init.upload_details\<close>). The
  script forwards them and never inspects them; \<open>success_action_status\<close> is the status
  code that the session declares for a successful upload, kept as a number so that it can
  be compared with a response status.
\<close>

record upload_details =
  acl :: string
  bucket :: string
  x_amz_algorithm :: string
  x_amz_credential :: string
  x_amz_date :: string
  key :: string
  policy :: string
  x_amz_signature :: string
  success_action_status :: int
  content_type :: string
  cache_control :: string

record upload_init =
  init_id :: ident
  upload_url :: string
  details :: upload_details

text \<open>
  What the script does to the outside world. The first five are requests to the remote
  service or to the storage endpoint.
\<close>

datatype event =
    ListFolders string
  | CreateFolder string string
  | CreateAsset string ident string string
  | PostForm string upload_details string
  | ListAssets string
  | Sleep nat
  | Prompt
  | Ffmpeg string int

fun is_remote :: "event \<Rightarrow> bool" where
  "is_remote (ListFolders _) = True"
| "is_remote (CreateFolder _ _) = True"
| "is_remote (CreateAsset _ _ _ _) = True"
| "is_remote (PostForm _ _ _) = True"
| "is_remote (ListAssets _) = True"
| "is_remote (Sleep _) = False"
| "is_remote Prompt = False"
| "is_remote (Ffmpeg _ _) = False"

fun is_sleep :: "event \<Rightarrow> bool" where
  "is_sleep (Sleep _) = True"
| "is_sleep _ = False"

fun is_list_assets :: "event \<Rightarrow> bool" where
  "is_list_assets (ListAssets _) = True"
| "is_list_assets _ = False"

fun is_create_folder :: "event \<Rightarrow> bool" where
  "is_create_folder (CreateFolder _ _) = True"
| "is_create_folder _ = False"

section \<open>Python values\<close>

text \<open>
  Truthiness of an optional string: \<^verbatim>\<open>None\<close> and \<^verbatim>\<open>""\<close> are false. \<open>py_or\<close> is
  Python's \<^verbatim>\<open>a or b\<close>: the left operand when it is true, the right one otherwise.
\<close>

definition truthy :: "string option \<Rightarrow> bool" where
  "truthy v = (case v of None \<Rightarrow> False | Some s \<Rightarrow> s \<noteq> [])"

definition py_or :: "string option \<Rightarrow> string option \<Rightarrow> string option" where
  "py_or a b = (if truthy a then a else b)"

text \<open>
  The line read by \<^verbatim>\<open>input()\<close> is a Python \<^verbatim>\<open>str\<close>: a list of Unicode code points.
  \<open>py_str\<close> reads a literal of the source as such a list.
\<close>

definition py_str :: "string \<Rightarrow> nat list" where
  "py_str s = map of_char s"

text \<open>
  \<^verbatim>\<open>str.strip()\<close> removes the leading and the trailing white space; the white space of
  a \<^verbatim>\<open>str\<close> is U+0009 to U+000D, U+001C to U+0020, U+0085, U+00A0, U+1680, U+2000 to
  U+200A, U+2028, U+2029, U+202F, U+205F and U+3000.
\<close>

definition py_isspace :: "nat \<Rightarrow> bool" where
  "py_isspace c =
     ((9 \<le> c \<and> c \<le> 13) \<or> (28 \<le> c \<and> c \<le> 32) \<or> c = 133 \<or> c = 160 \<or> c = 5760 \<or>
      (8192 \<le> c \<and> c \<le> 8202) \<or> c = 8232 \<or> c = 8233 \<or> c = 8239 \<or> c = 8287 \<or> c = 12288)"

definition strip :: "nat list \<Rightarrow> nat list" where
  "strip s = rev (dropWhile py_isspace (rev (dropWhile py_isspace s)))"

text \<open>
  \<^verbatim>\<open>str.lower()\<close> maps every code point to one or more code points and concatenates
  them. A to Z go to a to z and the other code points below 128 stay. Above, the
  mapping is that of the Unicode character database, which is not part of the script:
  \<open>to_lower_full\<close> is its table, and \<open>final_sigma\<close> its test whether the capital sigma
  (U+03A3) at a position of the string ends a word, which chooses between U+03C2 and
  U+03C3.
\<close>

record unicode_tables =
  to_lower_full :: "nat \<Rightarrow> nat list"
  final_sigma :: "nat list \<Rightarrow> nat \<Rightarrow> bool"

definition lower_ucs4 :: "unicode_tables \<Rightarrow> nat list \<Rightarrow> nat \<Rightarrow> nat \<Rightarrow> nat list" where
  "lower_ucs4 u s i c =
     (if c = 931 then [if final_sigma u s i then 962 else 963]
      else if 65 \<le> c \<and> c \<le> 90 then [c + 32]
      else if c < 128 then [c]
      else to_lower_full u c)"

definition lower :: "unicode_tables \<Rightarrow> nat list \<Rightarrow> nat list" where
  "lower u s = concat (map (\<lambda>(i, c). lower_ucs4 u s i c) (enumerate 0 s))"

section \<open>Availability poller\<close>

text \<open>
  \<^verbatim>\<open>poll_for_asset_url(site_id, asset_id, retries=20, delay=5)\<close>. The argument
  \<open>list_assets\<close> gives the outcome of \<^verbatim>\<open>webflow.assets.list(site_id)\<close> at each attempt,
  counted from 0: an exception or the listing. \<open>poll_attempts\<close> is the \<^verbatim>\<open>for\<close> loop with
  \<open>i\<close> the loop variable and the last argument the number of iterations left.
  Every exception of an attempt is caught; the attempt then sleeps like an attempt that
  found nothing. The entry found is an object, which Python takes as true; its URL is
  returned when it is neither \<^verbatim>\<open>None\<close> nor empty. The result \<open>None\<close> is Python's
  \<^verbatim>\<open>None\<close>.
\<close>

fun poll_attempts ::
  "(nat \<Rightarrow> exn + asset list) \<Rightarrow> string \<Rightarrow> ident \<Rightarrow> nat \<Rightarrow> nat \<Rightarrow> nat
     \<Rightarrow> string option \<times> event list" where
  "poll_attempts list_assets site aid delay i 0 = (None, [])"
| "poll_attempts list_assets site aid delay i (Suc k) =
     (case list_assets i of
        Inl e \<Rightarrow>
          (case poll_attempts list_assets site aid delay (Suc i) k of
             (r, t) \<Rightarrow> (r, ListAssets site # Sleep delay # t))
      | Inr all_assets \<Rightarrow>
          (case find (\<lambda>a. asset_id a = aid) all_assets of
             Some target \<Rightarrow>
               (let u = py_or (py_or (original_url target) (hosted_url target)) (url target)
                in if truthy u then (u, [ListAssets site])
                   else (case poll_attempts list_assets site aid delay (Suc i) k of
                           (r, t) \<Rightarrow> (r, ListAssets site # Sleep delay # t)))
           | None \<Rightarrow>
               (case poll_attempts list_assets site aid delay (Suc i) k of
                  (r, t) \<Rightarrow> (r, ListAssets site # Sleep delay # t))))"

definition poll_for_asset_url ::
  "(nat \<Rightarrow> exn + asset list) \<Rightarrow> string \<Rightarrow> ident \<Rightarrow> nat \<Rightarrow> nat
     \<Rightarrow> string option \<times> event list" where
  "poll_for_asset_url list_assets site aid retries delay =
     poll_attempts list_assets site aid delay 0 retries"

section \<open>Folder resolver\<close>

text \<open>
  The folder namespace of the site, as the client's calls see it when nobody else writes
  to it: the folders that exist, the id that the service gives to the next folder it
  creates (any function of the folders that exist), and whether the two calls raise.
  \<open>list_folders\<close> and \<open>create_folder\<close> stand for
  \<^verbatim>\<open>webflow.assets.list_folders\<close> and \<^verbatim>\<open>webflow.assets.create_folder\<close>: the first returns
  the folders, the second adds a folder with the name it was given and returns it.
\<close>

record site =
  asset_folders :: "folder list"
  new_folder_id :: "folder list \<Rightarrow> ident"
  list_folders_raises :: "exn option"
  create_folder_raises :: "exn option"

definition list_folders :: "site \<Rightarrow> exn + folder list" where
  "list_folders s =
     (case list_folders_raises s of Some e \<Rightarrow> Inl e | None \<Rightarrow> Inr (asset_folders s))"

definition create_folder :: "string \<Rightarrow> site \<Rightarrow> exn + folder \<times> site" where
  "create_folder name s =
     (case create_folder_raises s of
        Some e \<Rightarrow> Inl e
      | None \<Rightarrow>
          (let f = \<lparr>folder_id = new_folder_id s (asset_folders s), display_name = Some name\<rparr>
           in Inr (f, s\<lparr>asset_folders := asset_folders s @ [f]\<rparr>)))"

text \<open>
  \<^verbatim>\<open>create_asset_folder(site_id, folder_name)\<close>: the first folder whose display name is
  \<open>folder_name\<close>, or a new one. An exception of either call leaves the function; the
  result is the returned id or the exception, the site afterwards, and the requests made.
\<close>

definition create_asset_folder ::
  "site \<Rightarrow> string \<Rightarrow> string \<Rightarrow> (exn + ident) \<times> site \<times> event list" where
  "create_asset_folder s sid folder_name =
     (case list_folders s of
        Inl e \<Rightarrow> (Inl e, s, [ListFolders sid])
      | Inr folders_list \<Rightarrow>
          (case find (\<lambda>f. display_name f = Some folder_name) folders_list of
             Some existing_folder \<Rightarrow> (Inr (folder_id existing_folder), s, [ListFolders sid])
           | None \<Rightarrow>
               (case create_folder folder_name s of
                  Inl e \<Rightarrow> (Inl e, s, [ListFolders sid, CreateFolder sid folder_name])
                | Inr (response, s') \<Rightarrow>
                    (Inr (folder_id response), s',
                     [ListFolders sid, CreateFolder sid folder_name]))))"

section \<open>Content hasher\<close>

text \<open>
  \<^verbatim>\<open>get_file_md5(path)\<close>. \<open>read_chunks n bs\<close> is the sequence of results of
  \<^verbatim>\<open>f.read(n)\<close> on a file holding \<open>bs\<close>, up to and without the empty one that ends
  \<^verbatim>\<open>iter(..., b"")\<close>. The hash object is the bytes it has been fed so far
  (\<^verbatim>\<open>update\<close> appends), and \<open>md5\<close> is \<^verbatim>\<open>hashlib\<close>'s digest of them as a hexadecimal
  string. The file is an exception (it cannot be opened or read) or its contents.
\<close>

function read_chunks :: "nat \<Rightarrow> bytes \<Rightarrow> bytes list" where
  "read_chunks n bs =
     (if n = 0 \<or> bs = [] then [] else take n bs # read_chunks n (drop n bs))"
  by pat_completeness auto
termination
  by (relation "measure (\<lambda>(n, bs). length bs)") auto

declare read_chunks.simps [simp del]

definition get_file_md5 :: "(bytes \<Rightarrow> string) \<Rightarrow> exn + bytes \<Rightarrow> exn + string" where
  "get_file_md5 md5 file =
     (case file of
        Inl e \<Rightarrow> Inl e
      | Inr bs \<Rightarrow> Inr (md5 (foldl (\<lambda>hash_md5 chunk. hash_md5 @ chunk) [] (read_chunks 8192 bs))))"

section \<open>Upload\<close>

text \<open>
  What \<^verbatim>\<open>upload_local_asset\<close> meets outside: the file, \<^verbatim>\<open>hashlib\<close>'s MD5, the outcome
  of \<^verbatim>\<open>webflow.assets.create\<close>, the outcome of \<^verbatim>\<open>requests.post\<close> (an exception or the
  status code of the response) and the outcomes of the listing calls of the poller.
\<close>

record upload_env =
  file_contents :: "exn + bytes"
  md5_hex :: "bytes \<Rightarrow> string"
  assets_create :: "exn + upload_init"
  requests_post :: "exn + int"
  assets_list :: "nat \<Rightarrow> exn + asset list"

text \<open>
  The function returns nothing; its outcome is the message it prints last: the URL
  (\<open>FileReady\<close>), "Upload worked, but timed out waiting for URL" (\<open>UrlTimedOut\<close>),
  "Failed to upload. Status: ..." (\<open>UploadFailed\<close>), or "Error during upload: ..."
  from the handler that catches every exception of the body (\<open>UploadError\<close>).
\<close>

datatype upload_report = FileReady string | UrlTimedOut | UploadFailed int | UploadError exn

definition basename :: "string \<Rightarrow> string" where
  "basename p = rev (takeWhile (\<lambda>c. c \<noteq> CHR ''/'') (rev p))"

definition upload_local_asset ::
  "upload_env \<Rightarrow> string \<Rightarrow> ident \<Rightarrow> string \<Rightarrow> upload_report \<times> event list" where
  "upload_local_asset env sid fid file_path =
     (let file_name = basename file_path
      in case get_file_md5 (md5_hex env) (file_contents env) of
           Inl e \<Rightarrow> (UploadError e, [])
         | Inr file_hash \<Rightarrow>
             (case assets_create env of
                Inl e \<Rightarrow> (UploadError e, [CreateAsset sid fid file_name file_hash])
              | Inr init \<Rightarrow>
                  (case requests_post env of
                     Inl e \<Rightarrow>
                       (UploadError e,
                        [CreateAsset sid fid file_name file_hash,
                         PostForm (upload_url init) (details init) file_name])
                   | Inr status_code \<Rightarrow>
                       if status_code = 201
                       then (case poll_for_asset_url (assets_list env) sid (init_id init) 20 5 of
                               (final_url, t) \<Rightarrow>
                                 ((case final_url of
                                     None \<Rightarrow> UrlTimedOut
                                   | Some u \<Rightarrow> if u \<noteq> [] then FileReady u else UrlTimedOut),
                                  CreateAsset sid fid file_name file_hash
                                  # PostForm (upload_url init) (details init) file_name # t))
                       else (UploadFailed status_code,
                             [CreateAsset sid fid file_name file_hash,
                              PostForm (upload_url init) (details init) file_name]))))"

section \<open>Main\<close>

text \<open>
  The module first checks that \<^verbatim>\<open>WEBFLOW_API_TOKEN\<close> and \<^verbatim>\<open>SITE_ID\<close> are set and leaves
  with \<^verbatim>\<open>sys.exit(1)\<close> otherwise; \<^verbatim>\<open>main\<close> runs after that check has passed.
  What \<^verbatim>\<open>main\<close> meets outside, after the arguments are parsed: whether the input path is
  a file, whether the output directory can be made, how the transcoder ends, the name
  \<^verbatim>\<open>input_path.with_suffix('.webm').name\<close>, the outcomes of
  \<^verbatim>\<open>input_path.stat()\<close> and \<^verbatim>\<open>compressed_path.stat()\<close> (an exception, or the size in
  bytes), the line typed at the prompt (\<open>None\<close> at end of input), the Unicode tables,
  the \<^verbatim>\<open>SITE_ID\<close> of the environment, the site and the surroundings of the upload.
\<close>

datatype ffmpeg_outcome = FfmpegOk | FfmpegFailed | FfmpegNotFound

record env =
  is_file :: bool
  mkdir_ok :: bool
  ffmpeg :: ffmpeg_outcome
  webm_name :: "string \<Rightarrow> string"
  original_size :: "exn + nat"
  new_size :: "exn + nat"
  answer :: "nat list option"
  unicodedata :: unicode_tables
  site_id :: string
  remote_site :: site
  upload :: upload_env

text \<open>
  How a call ends: it returns, it leaves through \<^verbatim>\<open>sys.exit(code)\<close>, or an exception
  leaves it. \<open>exit_code\<close> is the exit status of the process when \<^verbatim>\<open>main()\<close> ends that way:
  an exception that nothing catches prints a traceback and gives status 1.
\<close>

datatype ending = Returned | SysExit nat | Raised exn

fun exit_code :: "ending \<Rightarrow> nat" where
  "exit_code Returned = 0"
| "exit_code (SysExit n) = n"
| "exit_code (Raised e) = 1"

text \<open>\<^verbatim>\<open>compress_video(input_path, crf)\<close>: the output path, or the code of \<^verbatim>\<open>sys.exit\<close>.\<close>

definition compress_video :: "env \<Rightarrow> string \<Rightarrow> int \<Rightarrow> (nat + string) \<times> event list" where
  "compress_video e input_path crf =
     (if \<not> mkdir_ok e then (Inl 1, [])
      else (case ffmpeg e of
              FfmpegOk \<Rightarrow> (Inr (''compressed/'' @ webm_name e input_path), [Ffmpeg input_path crf])
            | FfmpegFailed \<Rightarrow> (Inl 1, [Ffmpeg input_path crf])
            | FfmpegNotFound \<Rightarrow> (Inl 1, [Ffmpeg input_path crf])))"

text \<open>
  \<^verbatim>\<open>main()\<close> with the parsed arguments. The size comparison reads the size of the input
  file, then the size of the compressed file, then divides by the first; an exception of
  either \<^verbatim>\<open>stat()\<close> or of the division leaves \<^verbatim>\<open>main\<close>, and the quotient is only
  printed. The answer is stripped and lowered, and the upload runs when it is \<^verbatim>\<open>'y'\<close> or
  empty. An exception of \<open>create_asset_folder\<close> is not caught here;
  \<open>upload_local_asset\<close> raises none. The third component is the report of the upload,
  when it ran.
\<close>

definition main :: "env \<Rightarrow> string \<Rightarrow> int \<Rightarrow> ending \<times> event list \<times> upload_report option" where
  "main e input_file crf =
     (if \<not> is_file e then (SysExit 1, [], None)
      else (case compress_video e input_file crf of
         (Inl code, t) \<Rightarrow> (SysExit code, t, None)
       | (Inr compressed_path, t) \<Rightarrow>
           (case original_size e of
              Inl x \<Rightarrow> (Raised x, t, None)
            | Inr original \<Rightarrow>
                (case new_size e of
                   Inl x \<Rightarrow> (Raised x, t, None)
                 | Inr new \<Rightarrow>
                     if original = 0 then (Raised ZeroDivisionError, t, None)
                     else (case answer e of
                        None \<Rightarrow> (Raised EOFError, t @ [Prompt], None)
                      | Some line \<Rightarrow>
                          (let confirm = lower (unicodedata e) (strip line)
                           in if confirm = py_str ''y'' \<or> confirm = py_str ''''
                              then (case create_asset_folder (remote_site e) (site_id e)
                                           ''Video Uploads'' of
                                      (Inl x, s', t') \<Rightarrow> (Raised x, t @ [Prompt] @ t', None)
                                    | (Inr fid, s', t') \<Rightarrow>
                                        if fid \<noteq> []
                                        then (case upload_local_asset (upload e) (site_id e) fid
                                                     compressed_path of
                                                (rep, t'') \<Rightarrow>
                                                  (Returned, t @ [Prompt] @ t' @ t'', Some rep))
                                        else (Returned, t @ [Prompt] @ t', None))
                              else (Returned, t @ [Prompt], None)))))))"

section \<open>Predicates and sample inputs of the properties\<close>

text \<open>
  A response of the listing call exposes no URL for the asset \<open>aid\<close> when it is an
  exception, or a listing in which no entry with that id has a non-empty URL attribute.
\<close>

definition exposes_no_url :: "exn + asset list \<Rightarrow> ident \<Rightarrow> bool" where
  "exposes_no_url response aid =
     (case response of
        Inl e \<Rightarrow> True
      | Inr listing \<Rightarrow>
          list_all (\<lambda>a. asset_id a = aid \<longrightarrow>
                      \<not> truthy (original_url a) \<and> \<not> truthy (hosted_url a) \<and> \<not> truthy (url a))
            listing)"

definition never_exposes_url :: "(nat \<Rightarrow> exn + asset list) \<Rightarrow> ident \<Rightarrow> nat \<Rightarrow> bool" where
  "never_exposes_url responses aid n =
     list_all (\<lambda>i. exposes_no_url (responses i) aid) [0..<n]"

definition other_asset :: asset where
  "other_asset =
     \<lparr>asset_id = ''a0'', original_url = Some ''https://cdn.example/other.webm'',
      hosted_url = None, url = None\<rparr>"

definition pending_asset :: asset where
  "pending_asset = \<lparr>asset_id = ''a1'', original_url = None, hosted_url = Some '''', url = None\<rparr>"

definition cdn_asset :: asset where
  "cdn_asset =
     \<lparr>asset_id = ''a1'', original_url = None,
      hosted_url = Some ''https://cdn.example/clip.webm'', url = Some ''https://example/clip''\<rparr>"

definition always_empty :: "nat \<Rightarrow> exn + asset list" where
  "always_empty i = Inr []"

definition never_ready :: "nat \<Rightarrow> exn + asset list" where
  "never_ready i =
     (if i = 0 then Inl TransportError
      else if i = 1 then Inr [other_asset] else Inr [other_asset, pending_asset])"

definition ready_at_once :: "nat \<Rightarrow> exn + asset list" where
  "ready_at_once i = Inr [other_asset, cdn_asset, pending_asset]"

text \<open>Listings that hold the asset id twice, the URL being on the second entry.\<close>

definition url_on_second_entry :: "nat \<Rightarrow> exn + asset list" where
  "url_on_second_entry i = Inr [pending_asset, cdn_asset]"

definition errors_then_second_entry :: "nat \<Rightarrow> exn + asset list" where
  "errors_then_second_entry i =
     (if i < 2 then Inl TransportError else Inr [pending_asset, cdn_asset])"

definition ready_at_third :: "nat \<Rightarrow> exn + asset list" where
  "ready_at_third i = (if i < 2 then Inl TransportError else Inr [other_asset, cdn_asset])"

text \<open>
  The report of an upload that went through: the script printed "S3 Upload successful"
  and polled. \<open>reaches_prompt\<close> says that a run gets as far as the confirmation prompt
  (the input is a file, the compression succeeds, both sizes can be read and the first
  is not zero), \<open>user_confirms\<close> that the line typed there starts the upload.
\<close>

fun upload_accepted :: "upload_report \<Rightarrow> bool" where
  "upload_accepted (FileReady u) = True"
| "upload_accepted UrlTimedOut = True"
| "upload_accepted (UploadFailed c) = False"
| "upload_accepted (UploadError x) = False"

definition reaches_prompt :: "env \<Rightarrow> bool" where
  "reaches_prompt e =
     (is_file e \<and> mkdir_ok e \<and> ffmpeg e = FfmpegOk \<and>
      (case original_size e of Inl x \<Rightarrow> False | Inr original \<Rightarrow> original \<noteq> 0) \<and>
      (case new_size e of Inl x \<Rightarrow> False | Inr new \<Rightarrow> True))"

definition user_confirms :: "env \<Rightarrow> bool" where
  "user_confirms e =
     (case answer e of
        None \<Rightarrow> False
      | Some line \<Rightarrow>
          lower (unicodedata e) (strip line) = py_str ''y'' \<or>
          lower (unicodedata e) (strip line) = py_str '''')"

text \<open>
  A stand-in for the Unicode tables: above 127 it lowers the capital letters of Latin-1
  and leaves the rest.
\<close>

definition sample_tables :: unicode_tables where
  "sample_tables =
     \<lparr>to_lower_full = (\<lambda>c. if 192 \<le> c \<and> c \<le> 222 \<and> c \<noteq> 215 then [c + 32] else [c]),
      final_sigma = (\<lambda>s i. False)\<rparr>"

definition sample_site :: site where
  "sample_site =
     \<lparr>asset_folders =
        [\<lparr>folder_id = ''f1'', display_name = Some ''Images''\<rparr>,
         \<lparr>folder_id = ''f2'', display_name = None\<rparr>,
         \<lparr>folder_id = ''f3'', display_name = Some ''video uploads''\<rparr>],
      new_folder_id = (\<lambda>folders. ''f9''),
      list_folders_raises = None,
      create_folder_raises = None\<rparr>"

definition sample_details :: upload_details where
  "sample_details =
     \<lparr>acl = ''public-read'', bucket = ''assets'', x_amz_algorithm = ''AWS4-HMAC-SHA256'',
      x_amz_credential = ''credential'', x_amz_date = ''20240101T000000Z'',
      key = ''site/clip.webm'', policy = ''policy'', x_amz_signature = ''signature'',
      success_action_status = 201, content_type = ''video/webm'',
      cache_control = ''max-age=31536000''\<rparr>"

definition sample_init :: upload_init where
  "sample_init =
     \<lparr>init_id = ''a1'', upload_url = ''https://s3.example/upload'', details = sample_details\<rparr>"

definition sample_upload :: upload_env where
  "sample_upload =
     \<lparr>file_contents = Inr ''webm'', md5_hex = (\<lambda>bs. ''0f5a''),
      assets_create = Inr sample_init, requests_post = Inr 201, assets_list = ready_at_third\<rparr>"

definition sample_env :: env where
  "sample_env =
     \<lparr>is_file = True, mkdir_ok = True, ffmpeg = FfmpegOk, webm_name = (\<lambda>p. ''clip.webm''),
      original_size = Inr 10485760, new_size = Inr 2097152, answer = Some (py_str ''y''),
      unicodedata = sample_tables, site_id = ''site'', remote_site = sample_site,
      upload = sample_upload\<rparr>"

text \<open>A session that declares status 200, answered with status 200.\<close>

definition init_200 :: upload_init where
  "init_200 = sample_init\<lparr>details := sample_details\<lparr>success_action_status := 200\<rparr>\<rparr>"

definition upload_200 :: upload_env where
  "upload_200 = sample_upload\<lparr>assets_create := Inr init_200, requests_post := Inr 200\<rparr>"

text \<open>A run in which the folder exists and \<^verbatim>\<open>webflow.assets.create\<close> raises.\<close>

definition site_with_folder :: site where
  "site_with_folder =
     sample_site\<lparr>asset_folders := [\<lparr>folder_id = ''f4'', display_name = Some ''Video Uploads''\<rparr>]\<rparr>"

definition initiation_fails :: env where
  "initiation_fails =
     sample_env\<lparr>remote_site := site_with_folder,
                upload := sample_upload\<lparr>assets_create := Inl RemoteServiceError\<rparr>\<rparr>"

text \<open>Runs in which a call of the folder resolver raises.\<close>

definition listing_fails :: env where
  "listing_fails =
     sample_env\<lparr>remote_site := sample_site\<lparr>list_folders_raises := Some RemoteServiceError\<rparr>\<rparr>"

definition creation_fails :: env where
  "creation_fails =
     sample_env\<lparr>remote_site := sample_site\<lparr>create_folder_raises := Some RemoteServiceError\<rparr>\<rparr>"

text \<open>The sample site after a folder "Video Uploads" was created on it.\<close>

definition site_after_create :: site where
  "site_after_create =
     sample_site\<lparr>asset_folders := asset_folders sample_site @
        [\<lparr>folder_id = ''f9'', display_name = Some ''Video Uploads''\<rparr>]\<rparr>"

text \<open>
  A run on an empty input file in which the transcoder ends with status 0 and leaves no
  output file.
\<close>

definition output_missing :: env where
  "output_missing =
     sample_env\<lparr>original_size := Inr 0, new_size := Inl FileNotFoundError\<rparr>"

section \<open>Properties of the poller\<close>

lemma find_no_url:
  assumes "exposes_no_url (Inr listing) aid"
    and "find (\<lambda>a. asset_id a = aid) listing = Some target"
  shows "\<not> truthy (py_or (py_or (original_url target) (hosted_url target)) (url target))"
proof -
  from assms(2) have "target \<in> set listing" and "asset_id target = aid"
    by (auto simp: find_Some_iff)
  with assms(1) show ?thesis
    by (simp add: exposes_no_url_def list_all_iff py_or_def)
qed

lemma poll_attempts_never:
  assumes "\<forall>j<k. exposes_no_url (responses (i + j)) aid"
  shows "poll_attempts responses sid aid delay i k =
           (None, concat (replicate k [ListAssets sid, Sleep delay]))"
  using assms
proof (induction k arbitrary: i)
  case 0
  show ?case by simp
next
  case (Suc k)
  have "\<forall>j<k. exposes_no_url (responses (Suc i + j)) aid"
  proof (intro allI impI)
    fix j assume "j < k"
    then have "Suc j < Suc k" by simp
    from Suc.prems[rule_format, OF this] show "exposes_no_url (responses (Suc i + j)) aid"
      by simp
  qed
  then have rest: "poll_attempts responses sid aid delay (Suc i) k =
           (None, concat (replicate k [ListAssets sid, Sleep delay]))"
    by (rule Suc.IH)
  from Suc.prems[rule_format, of 0] have here: "exposes_no_url (responses i) aid"
    by simp
  show ?case
  proof (cases "responses i")
    case (Inl e)
    then show ?thesis by (simp add: rest)
  next
    case (Inr listing)
    show ?thesis
    proof (cases "find (\<lambda>a. asset_id a = aid) listing")
      case None
      with Inr show ?thesis by (simp add: rest)
    next
      case (Some target)
      from here Inr have "exposes_no_url (Inr listing) aid" by simp
      from find_no_url[OF this Some] Inr Some show ?thesis
        by (simp add: rest Let_def)
    qed
  qed
qed

lemma py_or_chain:
  "py_or (py_or a b) c = (if truthy a then a else if truthy b then b else c)"
  by (simp add: py_or_def)

lemma poll_attempts_found:
  assumes "responses i = Inr listing"
    and "find (\<lambda>x. asset_id x = aid) listing = Some a"
    and "truthy (original_url a) \<or> truthy (hosted_url a) \<or> truthy (url a)"
  shows "poll_attempts responses sid aid delay i (Suc k) =
           (if truthy (original_url a) then original_url a
            else if truthy (hosted_url a) then hosted_url a else url a, [ListAssets sid])"
  using assms by (auto simp: py_or_chain Let_def)

lemma poll_attempts_errors:
  assumes "\<forall>j<k. \<exists>e. responses (i + j) = Inl e"
  shows "poll_attempts responses sid aid delay i (k + m) =
           (case poll_attempts responses sid aid delay (i + k) m of
              (r, t) \<Rightarrow> (r, concat (replicate k [ListAssets sid, Sleep delay]) @ t))"
  using assms
proof (induction k arbitrary: i)
  case 0
  show ?case by (simp split: prod.split)
next
  case (Suc k)
  from Suc.prems[rule_format, of 0] obtain e where e: "responses i = Inl e" by auto
  have "\<forall>j<k. \<exists>e. responses (Suc i + j) = Inl e"
  proof (intro allI impI)
    fix j assume "j < k"
    then have "Suc j < Suc k" by simp
    from Suc.prems[rule_format, OF this] show "\<exists>e. responses (Suc i + j) = Inl e" by simp
  qed
  from Suc.IH[OF this] e show ?case by (simp split: prod.split)
qed

lemma count_in_cycles:
  "length (filter P (concat (replicate n xs))) = n * length (filter P xs)"
  by (induction n) auto

text \<open>
  Claim C2, as amended. When no response of the first \<open>retries\<close> attempts exposes a URL
  for the asset, the poller makes exactly \<open>retries\<close> listing calls and returns \<^verbatim>\<open>None\<close>
  (the timeout), and it sleeps \<open>delay\<close> after every attempt, the last one included: the
  trace is \<open>retries\<close> times a listing call followed by a sleep.
\<close>

theorem poll_times_out_sleeping_after_every_attempt:
  assumes "never_exposes_url responses aid retries"
  shows "poll_for_asset_url responses sid aid retries delay =
           (None, concat (replicate retries [ListAssets sid, Sleep delay])) \<and>
         length (filter is_list_assets (snd (poll_for_asset_url responses sid aid retries delay))) =
           retries \<and>
         length (filter is_sleep (snd (poll_for_asset_url responses sid aid retries delay))) =
           retries"
proof -
  from assms have "\<forall>j<retries. exposes_no_url (responses (0 + j)) aid"
    by (simp add: never_exposes_url_def list_all_iff)
  then have "poll_attempts responses sid aid delay 0 retries =
           (None, concat (replicate retries [ListAssets sid, Sleep delay]))"
    by (rule poll_attempts_never)
  then show ?thesis by (simp add: poll_for_asset_url_def count_in_cycles)
qed

theorem poll_times_out_sleeping_after_every_attempt_witness:
  "never_exposes_url never_ready ''a1'' 3 \<and>
   poll_for_asset_url never_ready ''site'' ''a1'' 3 5 =
     (None, [ListAssets ''site'', Sleep 5, ListAssets ''site'', Sleep 5,
             ListAssets ''site'', Sleep 5])"
proof -
  have h: "never_exposes_url never_ready ''a1'' 3"
    by code_simp
  from poll_times_out_sleeping_after_every_attempt[OF h, of "''site''" 5] h
  show ?thesis by (simp add: numeral_3_eq_3)
qed

text \<open>
  Claim C2 as stated fails: with one attempt allowed and a listing that never holds the
  asset, the poller sleeps after its only, hence final, attempt.
\<close>

theorem poll_sleeps_after_final_attempt_counterexample:
  "never_exposes_url always_empty ''a1'' 1 \<and>
   poll_for_asset_url always_empty ''site'' ''a1'' 1 5 = (None, [ListAssets ''site'', Sleep 5])"
  by (simp add: never_exposes_url_def exposes_no_url_def poll_for_asset_url_def always_empty_def)

text \<open>
  Claim C5, as amended. When at least one attempt is allowed and, in the listing of the
  first response, the first entry that carries the asset id has a non-empty URL
  attribute, the poller returns after that single listing call, without sleeping, and
  the URL is the original URL of that entry if non-empty, otherwise its hosted URL if
  non-empty, otherwise its generic URL.
\<close>

theorem poll_resolves_within_first_attempt:
  assumes "0 < retries"
    and "responses 0 = Inr listing"
    and "find (\<lambda>x. asset_id x = aid) listing = Some a"
    and "truthy (original_url a) \<or> truthy (hosted_url a) \<or> truthy (url a)"
  shows "poll_for_asset_url responses sid aid retries delay =
           (if truthy (original_url a) then original_url a
            else if truthy (hosted_url a) then hosted_url a else url a, [ListAssets sid])"
proof -
  from assms(1) obtain k where k: "retries = Suc k" by (cases retries) auto
  from poll_attempts_found[where responses=responses and i=0, OF assms(2) assms(3) assms(4)] k
  show ?thesis by (simp add: poll_for_asset_url_def)
qed

theorem poll_resolves_within_first_attempt_witness:
  "poll_for_asset_url ready_at_once ''site'' ''a1'' 20 5 =
     (Some ''https://cdn.example/clip.webm'', [ListAssets ''site''])"
proof -
  have h1: "(0::nat) < 20" by simp
  have h2: "ready_at_once 0 = Inr [other_asset, cdn_asset, pending_asset]"
    by (simp add: ready_at_once_def)
  have h3: "find (\<lambda>x. asset_id x = ''a1'') [other_asset, cdn_asset, pending_asset] = Some cdn_asset"
    by (simp add: other_asset_def cdn_asset_def)
  have h4: "truthy (original_url cdn_asset) \<or> truthy (hosted_url cdn_asset) \<or> truthy (url cdn_asset)"
    by (simp add: cdn_asset_def truthy_def)
  from poll_resolves_within_first_attempt[where responses=ready_at_once and sid="''site''"
      and delay=5, OF h1 h2 h3 h4]
  show ?thesis by (simp add: cdn_asset_def truthy_def)
qed

text \<open>
  Claim C5 as stated fails: the first listing holds the asset id twice, the second entry
  has a URL and the first has none; the poller reads the first entry only, sleeps, and
  after two attempts gives up.
\<close>

theorem poll_reads_first_entry_only_counterexample:
  "url_on_second_entry 0 = Inr [pending_asset, cdn_asset] \<and>
   cdn_asset \<in> set [pending_asset, cdn_asset] \<and> asset_id cdn_asset = ''a1'' \<and>
   truthy (hosted_url cdn_asset) \<and>
   poll_for_asset_url url_on_second_entry ''site'' ''a1'' 2 5 =
     (None, [ListAssets ''site'', Sleep 5, ListAssets ''site'', Sleep 5])"
  by (simp add: url_on_second_entry_def poll_for_asset_url_def pending_asset_def cdn_asset_def
      truthy_def py_or_def numeral_2_eq_2)

text \<open>
  Claim C6, as amended. When at least one attempt is allowed, every attempt before the
  last raises, and in the listing of the last attempt the first entry that carries the
  asset id has a non-empty URL attribute, the poller returns the URL of that entry: each
  failed attempt costs one listing call and one sleep, and the loop goes on.
\<close>

theorem poll_survives_errors_before_last_attempt:
  assumes "0 < retries"
    and "\<forall>i<retries - 1. \<exists>e. responses i = Inl e"
    and "responses (retries - 1) = Inr listing"
    and "find (\<lambda>x. asset_id x = aid) listing = Some a"
    and "truthy (original_url a) \<or> truthy (hosted_url a) \<or> truthy (url a)"
  shows "poll_for_asset_url responses sid aid retries delay =
           (if truthy (original_url a) then original_url a
            else if truthy (hosted_url a) then hosted_url a else url a,
            concat (replicate (retries - 1) [ListAssets sid, Sleep delay]) @ [ListAssets sid])"
proof -
  from assms(1) obtain k where k: "retries = k + Suc 0" by (cases retries) auto
  from assms(3) k have l: "responses (0 + k) = Inr listing" by simp
  from assms(2) k have "\<forall>j<k. \<exists>e. responses (0 + j) = Inl e" by simp
  from poll_attempts_errors[where responses=responses and i=0 and k=k and m="Suc 0", OF this]
    poll_attempts_found[where responses=responses and i="0 + k" and k=0, OF l assms(4) assms(5)] k
  show ?thesis by (simp add: poll_for_asset_url_def)
qed

theorem poll_survives_errors_before_last_attempt_witness:
  "poll_for_asset_url ready_at_third ''site'' ''a1'' 3 5 =
     (Some ''https://cdn.example/clip.webm'',
      [ListAssets ''site'', Sleep 5, ListAssets ''site'', Sleep 5, ListAssets ''site''])"
proof -
  have h1: "(0::nat) < 3" by simp
  have h2: "\<forall>i<(3::nat) - 1. \<exists>e. ready_at_third i = Inl e" by (simp add: ready_at_third_def)
  have h3: "ready_at_third (3 - 1) = Inr [other_asset, cdn_asset]"
    by (simp add: ready_at_third_def)
  have h4: "find (\<lambda>x. asset_id x = ''a1'') [other_asset, cdn_asset] = Some cdn_asset"
    by (simp add: other_asset_def cdn_asset_def)
  have h5: "truthy (original_url cdn_asset) \<or> truthy (hosted_url cdn_asset) \<or> truthy (url cdn_asset)"
    by (simp add: cdn_asset_def truthy_def)
  from poll_survives_errors_before_last_attempt[where responses=ready_at_third
      and sid="''site''" and delay=5, OF h1 h2 h3 h4 h5]
  show ?thesis by (simp add: cdn_asset_def truthy_def numeral_2_eq_2)
qed

text \<open>
  Claim C6 as stated fails: two attempts raise, and the listing of the third and last
  attempt holds the asset id twice with the URL on the second entry; the poller reads the
  first entry only and gives up.
\<close>

theorem poll_last_attempt_first_entry_only_counterexample:
  "errors_then_second_entry 0 = Inl TransportError \<and>
   errors_then_second_entry 1 = Inl TransportError \<and>
   errors_then_second_entry 2 = Inr [pending_asset, cdn_asset] \<and>
   cdn_asset \<in> set [pending_asset, cdn_asset] \<and> asset_id cdn_asset = ''a1'' \<and>
   truthy (hosted_url cdn_asset) \<and>
   poll_for_asset_url errors_then_second_entry ''site'' ''a1'' 3 5 =
     (None, [ListAssets ''site'', Sleep 5, ListAssets ''site'', Sleep 5,
             ListAssets ''site'', Sleep 5])"
  by (simp add: errors_then_second_entry_def poll_for_asset_url_def pending_asset_def
      cdn_asset_def truthy_def py_or_def numeral_3_eq_3)

section \<open>Properties of the hasher and of the upload\<close>

lemma foldl_append_concat: "foldl (\<lambda>acc chunk. acc @ chunk) acc xs = acc @ concat xs"
  by (induction xs arbitrary: acc) auto

lemma concat_read_chunks: "0 < n \<Longrightarrow> concat (read_chunks n bs) = bs"
proof (induction n bs rule: read_chunks.induct)
  case (1 n bs)
  show ?case
  proof (cases "bs = []")
    case True
    then show ?thesis by (simp add: read_chunks.simps)
  next
    case False
    with 1 have "concat (read_chunks n (drop n bs)) = drop n bs" by simp
    with False 1(2) show ?thesis
      by (subst read_chunks.simps) simp
  qed
qed

text \<open>Reading in chunks changes nothing: the digest is that of the whole contents.\<close>

lemma get_file_md5_contents: "get_file_md5 md5 (Inr bs) = Inr (md5 bs)"
  by (simp add: get_file_md5_def foldl_append_concat concat_read_chunks)

lemma upload_after_post:
  assumes "file_contents e = Inr bs" and "assets_create e = Inr init"
    and "requests_post e = Inr status_code"
  shows "upload_local_asset e sid fid path =
           (if status_code = 201
            then (case poll_for_asset_url (assets_list e) sid (init_id init) 20 5 of
                    (final_url, t) \<Rightarrow>
                      ((case final_url of
                          None \<Rightarrow> UrlTimedOut
                        | Some u \<Rightarrow> if u \<noteq> [] then FileReady u else UrlTimedOut),
                       CreateAsset sid fid (basename path) (md5_hex e bs)
                       # PostForm (upload_url init) (details init) (basename path) # t))
            else (UploadFailed status_code,
                  [CreateAsset sid fid (basename path) (md5_hex e bs),
                   PostForm (upload_url init) (details init) (basename path)]))"
  using assms by (simp add: upload_local_asset_def get_file_md5_contents Let_def)

lemma upload_initiation_fails:
  assumes "file_contents e = Inr bs" and "assets_create e = Inl x"
  shows "upload_local_asset e sid fid path =
           (UploadError x, [CreateAsset sid fid (basename path) (md5_hex e bs)])"
  using assms by (simp add: upload_local_asset_def get_file_md5_contents Let_def)

text \<open>
  Claim C1, as amended. For every upload session and every response of the storage
  endpoint, the upload is taken as successful exactly when the status code of the
  response is 201, whatever status the session declares; with any other status code the
  script reports the failure with that status code and does not poll.
\<close>

theorem upload_success_is_status_201:
  assumes "file_contents e = Inr bs" and "assets_create e = Inr init"
    and "requests_post e = Inr status_code"
  shows "(upload_accepted (fst (upload_local_asset e sid fid path)) \<longleftrightarrow> status_code = 201) \<and>
         (status_code \<noteq> 201 \<longrightarrow>
            upload_local_asset e sid fid path =
              (UploadFailed status_code,
               [CreateAsset sid fid (basename path) (md5_hex e bs),
                PostForm (upload_url init) (details init) (basename path)]))"
proof (cases "status_code = 201")
  case True
  with upload_after_post[OF assms, of sid fid path]
  show ?thesis by (simp split: prod.split option.split)
next
  case False
  with upload_after_post[OF assms, of sid fid path]
  show ?thesis by simp
qed

theorem upload_success_is_status_201_witness:
  "upload_accepted (fst (upload_local_asset sample_upload ''site'' ''f4'' ''compressed/clip.webm'')) \<and>
   upload_local_asset upload_200 ''site'' ''f4'' ''compressed/clip.webm'' =
     (UploadFailed 200,
      [CreateAsset ''site'' ''f4'' ''clip.webm'' ''0f5a'',
       PostForm ''https://s3.example/upload'' (details init_200) ''clip.webm''])"
proof -
  have h1: "file_contents sample_upload = Inr ''webm''" by (simp add: sample_upload_def)
  have h2: "assets_create sample_upload = Inr sample_init" by (simp add: sample_upload_def)
  have h3: "requests_post sample_upload = Inr 201" by (simp add: sample_upload_def)
  have k1: "file_contents upload_200 = Inr ''webm''"
    by (simp add: upload_200_def sample_upload_def)
  have k2: "assets_create upload_200 = Inr init_200" by (simp add: upload_200_def)
  have k3: "requests_post upload_200 = Inr 200" by (simp add: upload_200_def)
  from upload_success_is_status_201[OF h1 h2 h3, of "''site''" "''f4''" "''compressed/clip.webm''"]
    upload_success_is_status_201[OF k1 k2 k3, of "''site''" "''f4''" "''compressed/clip.webm''"]
  show ?thesis
    by (simp add: basename_def upload_200_def sample_upload_def init_200_def sample_init_def)
qed

text \<open>
  Claim C1 as stated fails: a session declares status 200, the endpoint answers 200, and
  the script reports a failed upload.
\<close>

theorem upload_declared_200_counterexample:
  "assets_create upload_200 = Inr init_200 \<and>
   requests_post upload_200 = Inr (success_action_status (details init_200)) \<and>
   fst (upload_local_asset upload_200 ''site'' ''f4'' ''compressed/clip.webm'') = UploadFailed 200"
  by (simp add: upload_200_def init_200_def sample_upload_def sample_init_def sample_details_def
      upload_local_asset_def get_file_md5_contents Let_def)

section \<open>Properties of the folder resolver\<close>

lemma resolve_existing:
  assumes "list_folders_raises s = None"
    and "find (\<lambda>f. display_name f = Some name) (asset_folders s) = Some f"
  shows "create_asset_folder s sid name = (Inr (folder_id f), s, [ListFolders sid])"
  using assms by (simp add: create_asset_folder_def list_folders_def)

lemma find_append_new:
  assumes "find P xs = None" and "P x"
  shows "find P (xs @ [x]) = Some x"
  using assms by (induction xs) (auto split: if_splits)

lemma resolve_missing:
  assumes "list_folders_raises s = None" and "create_folder_raises s = None"
    and "find (\<lambda>f. display_name f = Some name) (asset_folders s) = None"
  shows "create_asset_folder s sid name =
           (Inr (new_folder_id s (asset_folders s)),
            s\<lparr>asset_folders := asset_folders s @
                 [\<lparr>folder_id = new_folder_id s (asset_folders s), display_name = Some name\<rparr>]\<rparr>,
            [ListFolders sid, CreateFolder sid name])"
  using assms by (simp add: create_asset_folder_def list_folders_def create_folder_def Let_def)

lemma create_asset_folder_lists_first:
  "ListFolders sid \<in> set (snd (snd (create_asset_folder s sid name)))"
  by (simp add: create_asset_folder_def split: sum.split option.split prod.split)

lemma create_asset_folder_list_fails:
  assumes "list_folders_raises s = Some x"
  shows "create_asset_folder s sid name = (Inl x, s, [ListFolders sid])"
  using assms by (simp add: create_asset_folder_def list_folders_def)

lemma create_asset_folder_create_fails:
  assumes "list_folders_raises s = None"
    and "find (\<lambda>f. display_name f = Some name) (asset_folders s) = None"
    and "create_folder_raises s = Some x"
  shows "create_asset_folder s sid name = (Inl x, s, [ListFolders sid, CreateFolder sid name])"
  using assms by (simp add: create_asset_folder_def list_folders_def create_folder_def)

text \<open>
  Claim C4. On a site that nobody else writes to and whose calls do not raise, two calls
  of the resolver in sequence with the same name return the same folder id, and together
  they send one create-folder request when no folder has that display name and none when
  one has it; in that case the first call returns the id of the (first) folder whose
  display name equals the name, character for character, and leaves the site as it is.
\<close>

theorem create_asset_folder_idempotent:
  assumes "list_folders_raises s = None" and "create_folder_raises s = None"
    and "create_asset_folder s sid name = (r1, s1, t1)"
    and "create_asset_folder s1 sid name = (r2, s2, t2)"
  shows "(\<exists>fid. r1 = Inr fid \<and> r2 = Inr fid) \<and>
         length (filter is_create_folder (t1 @ t2)) =
           (if \<exists>f\<in>set (asset_folders s). display_name f = Some name then 0 else 1) \<and>
         (\<forall>f. find (\<lambda>f. display_name f = Some name) (asset_folders s) = Some f \<longrightarrow>
              r1 = Inr (folder_id f) \<and> s1 = s \<and> t1 = [ListFolders sid])"
proof (cases "find (\<lambda>f. display_name f = Some name) (asset_folders s)")
  case None
  then have absent: "\<not> (\<exists>f\<in>set (asset_folders s). display_name f = Some name)"
    by (simp add: find_None_iff)
  let ?f = "\<lparr>folder_id = new_folder_id s (asset_folders s), display_name = Some name\<rparr>"
  from resolve_missing[OF assms(1,2) None, of sid] assms(3)
  have first: "r1 = Inr (folder_id ?f)" "s1 = s\<lparr>asset_folders := asset_folders s @ [?f]\<rparr>"
    "t1 = [ListFolders sid, CreateFolder sid name]" by simp_all
  have "find (\<lambda>f. display_name f = Some name) (asset_folders s1) = Some ?f"
    using first(2) find_append_new[OF None, of ?f] by simp
  moreover have "list_folders_raises s1 = None" using first(2) assms(1) by simp
  ultimately have "create_asset_folder s1 sid name = (Inr (folder_id ?f), s1, [ListFolders sid])"
    by (rule resolve_existing[rotated])
  with assms(4) have second: "r2 = Inr (folder_id ?f)" "t2 = [ListFolders sid]" by simp_all
  from first second absent None show ?thesis by simp
next
  case (Some f)
  then have present: "\<exists>f\<in>set (asset_folders s). display_name f = Some name"
    by (auto simp: find_Some_iff)
  from resolve_existing[OF assms(1) Some, of sid] assms(3)
  have first: "r1 = Inr (folder_id f)" "s1 = s" "t1 = [ListFolders sid]" by simp_all
  from resolve_existing[OF assms(1) Some, of sid] assms(4) first(2)
  have second: "r2 = Inr (folder_id f)" "t2 = [ListFolders sid]" by simp_all
  from first second present Some show ?thesis by simp
qed

theorem create_asset_folder_idempotent_witness:
  "create_asset_folder sample_site ''site'' ''Video Uploads'' =
     (Inr ''f9'', site_after_create,
      [ListFolders ''site'', CreateFolder ''site'' ''Video Uploads'']) \<and>
   create_asset_folder site_after_create ''site'' ''Video Uploads'' =
     (Inr ''f9'', site_after_create, [ListFolders ''site'']) \<and>
   length (filter is_create_folder
            ([ListFolders ''site'', CreateFolder ''site'' ''Video Uploads''] @
             [ListFolders ''site''])) = 1 \<and>
   create_asset_folder site_with_folder ''site'' ''Video Uploads'' =
     (Inr ''f4'', site_with_folder, [ListFolders ''site'']) \<and>
   length (filter is_create_folder ([ListFolders ''site''] @ [ListFolders ''site''])) = 0"
proof -
  have h1: "list_folders_raises sample_site = None" by (simp add: sample_site_def)
  have h2: "create_folder_raises sample_site = None" by (simp add: sample_site_def)
  have h3: "create_asset_folder sample_site ''site'' ''Video Uploads'' =
     (Inr ''f9'', site_after_create,
      [ListFolders ''site'', CreateFolder ''site'' ''Video Uploads''])"
    by (simp add: create_asset_folder_def list_folders_def create_folder_def sample_site_def
        site_after_create_def Let_def)
  have h4: "create_asset_folder site_after_create ''site'' ''Video Uploads'' =
     (Inr ''f9'', site_after_create, [ListFolders ''site''])"
    by (simp add: create_asset_folder_def list_folders_def create_folder_def sample_site_def
        site_after_create_def Let_def)
  have absent:
    "\<not> (\<exists>f\<in>set (asset_folders sample_site). display_name f = Some ''Video Uploads'')"
    by (simp add: sample_site_def)
  have k1: "list_folders_raises site_with_folder = None"
    by (simp add: site_with_folder_def sample_site_def)
  have k2: "create_folder_raises site_with_folder = None"
    by (simp add: site_with_folder_def sample_site_def)
  have k3: "create_asset_folder site_with_folder ''site'' ''Video Uploads'' =
     (Inr ''f4'', site_with_folder, [ListFolders ''site''])"
    by (simp add: create_asset_folder_def list_folders_def site_with_folder_def sample_site_def)
  have present:
    "\<exists>f\<in>set (asset_folders site_with_folder). display_name f = Some ''Video Uploads''"
    by (simp add: site_with_folder_def)
  from create_asset_folder_idempotent[OF h1 h2 h3 h4]
    create_asset_folder_idempotent[OF k1 k2 k3 k3] absent present h3 h4 k3
  show ?thesis by simp
qed

section \<open>Properties of the main function\<close>

lemma lower_strip_n: "lower u (strip (py_str ''n'')) = py_str ''n''"
  by (simp add: lower_def strip_def py_str_def py_isspace_def lower_ucs4_def)

lemma compress_video_ok:
  assumes "mkdir_ok e" and "ffmpeg e = FfmpegOk"
  shows "compress_video e inp crf = (Inr (''compressed/'' @ webm_name e inp), [Ffmpeg inp crf])"
  using assms by (simp add: compress_video_def)

lemma main_at_prompt:
  assumes "reaches_prompt e"
  shows "main e inp crf =
     (case answer e of
        None \<Rightarrow> (Raised EOFError, [Ffmpeg inp crf, Prompt], None)
      | Some line \<Rightarrow>
          if lower (unicodedata e) (strip line) = py_str ''y'' \<or>
             lower (unicodedata e) (strip line) = py_str ''''
          then (case create_asset_folder (remote_site e) (site_id e) ''Video Uploads'' of
                  (Inl x, s', t') \<Rightarrow> (Raised x, [Ffmpeg inp crf, Prompt] @ t', None)
                | (Inr fid, s', t') \<Rightarrow>
                    if fid \<noteq> []
                    then (case upload_local_asset (upload e) (site_id e) fid
                                 (''compressed/'' @ webm_name e inp) of
                            (rep, t'') \<Rightarrow>
                              (Returned, [Ffmpeg inp crf, Prompt] @ t' @ t'', Some rep))
                    else (Returned, [Ffmpeg inp crf, Prompt] @ t', None))
          else (Returned, [Ffmpeg inp crf, Prompt], None))"
proof -
  from assms obtain original new where sizes: "original_size e = Inr original" "original \<noteq> 0"
    "new_size e = Inr new"
    by (auto simp: reaches_prompt_def split: sum.splits)
  from assms have c: "is_file e" "mkdir_ok e" "ffmpeg e = FfmpegOk"
    by (simp_all add: reaches_prompt_def)
  show ?thesis
    by (simp add: main_def c sizes compress_video_ok Let_def
        split: option.split prod.split sum.split)
qed

lemma main_before_prompt:
  assumes "\<not> reaches_prompt e"
  shows "main e inp crf =
     (if \<not> is_file e then (SysExit 1, [], None)
      else if \<not> mkdir_ok e then (SysExit 1, [], None)
      else if ffmpeg e \<noteq> FfmpegOk then (SysExit 1, [Ffmpeg inp crf], None)
      else (case original_size e of
              Inl x \<Rightarrow> (Raised x, [Ffmpeg inp crf], None)
            | Inr original \<Rightarrow>
                (case new_size e of
                   Inl x \<Rightarrow> (Raised x, [Ffmpeg inp crf], None)
                 | Inr new \<Rightarrow> (Raised ZeroDivisionError, [Ffmpeg inp crf], None))))"
  using assms
  by (cases "ffmpeg e")
    (auto simp add: main_def reaches_prompt_def compress_video_def split: sum.splits)

lemma main_confirmed:
  assumes "reaches_prompt e" and "user_confirms e"
  shows "main e inp crf =
          (case create_asset_folder (remote_site e) (site_id e) ''Video Uploads'' of
             (Inl x, s', t') \<Rightarrow> (Raised x, [Ffmpeg inp crf, Prompt] @ t', None)
           | (Inr fid, s', t') \<Rightarrow>
               if fid \<noteq> []
               then (case upload_local_asset (upload e) (site_id e) fid
                            (''compressed/'' @ webm_name e inp) of
                       (rep, t'') \<Rightarrow> (Returned, [Ffmpeg inp crf, Prompt] @ t' @ t'', Some rep))
               else (Returned, [Ffmpeg inp crf, Prompt] @ t', None))"
  using assms(2)
  by (auto simp add: main_at_prompt[OF assms(1)] user_confirms_def split: option.splits)

lemma sample_runs_confirm:
  "reaches_prompt listing_fails" "user_confirms listing_fails"
  "reaches_prompt creation_fails" "user_confirms creation_fails"
  "reaches_prompt initiation_fails" "user_confirms initiation_fails"
  by (simp_all add: reaches_prompt_def user_confirms_def listing_fails_def creation_fails_def
      initiation_fails_def sample_env_def lower_def strip_def py_isspace_def lower_ucs4_def
      py_str_def)

lemma initiation_fails_folder:
  "create_asset_folder (remote_site initiation_fails) (site_id initiation_fails) ''Video Uploads'' =
     (Inr ''f4'', site_with_folder, [ListFolders ''site''])"
  by (simp add: create_asset_folder_def list_folders_def initiation_fails_def sample_env_def
      site_with_folder_def sample_site_def)

text \<open>
  Claim C3, as amended. In a run that reaches the prompt and is confirmed: when the
  listing of the folders raises, or when no folder is called "Video Uploads" and its
  creation raises, the call is made once, the exception leaves \<^verbatim>\<open>main\<close> and the process
  exits with code 1; when the folder is resolved and the upload initiation
  (\<^verbatim>\<open>webflow.assets.create\<close>) raises, that call too is made once, but the exception is
  caught in \<open>upload_local_asset\<close> and reported, \<^verbatim>\<open>main\<close> returns and the process exits
  with code 0.
\<close>

theorem remote_failure_exit_codes:
  assumes "reaches_prompt e" and "user_confirms e"
  shows "(list_folders_raises (remote_site e) = Some x \<longrightarrow>
            main e inp crf = (Raised x, [Ffmpeg inp crf, Prompt, ListFolders (site_id e)], None) \<and>
            exit_code (fst (main e inp crf)) = 1) \<and>
         (list_folders_raises (remote_site e) = None \<and>
          find (\<lambda>f. display_name f = Some ''Video Uploads'') (asset_folders (remote_site e)) = None \<and>
          create_folder_raises (remote_site e) = Some x \<longrightarrow>
            main e inp crf =
              (Raised x,
               [Ffmpeg inp crf, Prompt, ListFolders (site_id e),
                CreateFolder (site_id e) ''Video Uploads''], None) \<and>
            exit_code (fst (main e inp crf)) = 1) \<and>
         (create_asset_folder (remote_site e) (site_id e) ''Video Uploads'' = (Inr fid, s', t) \<and>
          fid \<noteq> [] \<and> file_contents (upload e) = Inr bs \<and> assets_create (upload e) = Inl x \<longrightarrow>
            main e inp crf =
              (Returned,
               [Ffmpeg inp crf, Prompt] @ t @
               [CreateAsset (site_id e) fid (basename (''compressed/'' @ webm_name e inp))
                  (md5_hex (upload e) bs)],
               Some (UploadError x)) \<and>
            exit_code (fst (main e inp crf)) = 0)"
proof (intro conjI impI)
  assume "list_folders_raises (remote_site e) = Some x"
  from create_asset_folder_list_fails[OF this]
  show m: "main e inp crf = (Raised x, [Ffmpeg inp crf, Prompt, ListFolders (site_id e)], None)"
    by (simp add: main_confirmed[OF assms])
  show "exit_code (fst (main e inp crf)) = 1" by (simp add: m)
next
  assume "list_folders_raises (remote_site e) = None \<and>
          find (\<lambda>f. display_name f = Some ''Video Uploads'') (asset_folders (remote_site e)) = None \<and>
          create_folder_raises (remote_site e) = Some x"
  then have "create_asset_folder (remote_site e) (site_id e) ''Video Uploads'' =
      (Inl x, remote_site e, [ListFolders (site_id e), CreateFolder (site_id e) ''Video Uploads''])"
    by (intro create_asset_folder_create_fails) simp_all
  then show m: "main e inp crf =
              (Raised x,
               [Ffmpeg inp crf, Prompt, ListFolders (site_id e),
                CreateFolder (site_id e) ''Video Uploads''], None)"
    by (simp add: main_confirmed[OF assms])
  show "exit_code (fst (main e inp crf)) = 1" by (simp add: m)
next
  assume a: "create_asset_folder (remote_site e) (site_id e) ''Video Uploads'' = (Inr fid, s', t) \<and>
          fid \<noteq> [] \<and> file_contents (upload e) = Inr bs \<and> assets_create (upload e) = Inl x"
  then have "upload_local_asset (upload e) (site_id e) fid (''compressed/'' @ webm_name e inp) =
      (UploadError x, [CreateAsset (site_id e) fid (basename (''compressed/'' @ webm_name e inp))
                  (md5_hex (upload e) bs)])"
    by (intro upload_initiation_fails) simp_all
  with a show m: "main e inp crf =
              (Returned,
               [Ffmpeg inp crf, Prompt] @ t @
               [CreateAsset (site_id e) fid (basename (''compressed/'' @ webm_name e inp))
                  (md5_hex (upload e) bs)],
               Some (UploadError x))"
    by (simp add: main_confirmed[OF assms])
  show "exit_code (fst (main e inp crf)) = 0" by (simp add: m)
qed

theorem remote_failure_exit_codes_witness:
  "main listing_fails ''clip.mov'' 32 =
     (Raised RemoteServiceError, [Ffmpeg ''clip.mov'' 32, Prompt, ListFolders ''site''], None) \<and>
   exit_code (fst (main listing_fails ''clip.mov'' 32)) = 1 \<and>
   main creation_fails ''clip.mov'' 32 =
     (Raised RemoteServiceError,
      [Ffmpeg ''clip.mov'' 32, Prompt, ListFolders ''site'',
       CreateFolder ''site'' ''Video Uploads''], None) \<and>
   exit_code (fst (main creation_fails ''clip.mov'' 32)) = 1 \<and>
   main initiation_fails ''clip.mov'' 32 =
     (Returned,
      [Ffmpeg ''clip.mov'' 32, Prompt, ListFolders ''site'',
       CreateAsset ''site'' ''f4'' ''clip.webm'' ''0f5a''],
      Some (UploadError RemoteServiceError)) \<and>
   exit_code (fst (main initiation_fails ''clip.mov'' 32)) = 0"
proof -
  have l: "list_folders_raises (remote_site listing_fails) = Some RemoteServiceError"
    by (simp add: listing_fails_def sample_env_def)
  have c: "list_folders_raises (remote_site creation_fails) = None \<and>
           find (\<lambda>f. display_name f = Some ''Video Uploads'')
             (asset_folders (remote_site creation_fails)) = None \<and>
           create_folder_raises (remote_site creation_fails) = Some RemoteServiceError"
    by (simp add: creation_fails_def sample_env_def sample_site_def)
  have i: "create_asset_folder (remote_site initiation_fails) (site_id initiation_fails)
               ''Video Uploads'' = (Inr ''f4'', site_with_folder, [ListFolders ''site'']) \<and>
           ''f4'' \<noteq> [] \<and> file_contents (upload initiation_fails) = Inr ''webm'' \<and>
           assets_create (upload initiation_fails) = Inl RemoteServiceError"
    by (simp add: initiation_fails_folder) (simp add: initiation_fails_def sample_upload_def)
  have names: "site_id listing_fails = ''site''" "site_id creation_fails = ''site''"
    "site_id initiation_fails = ''site''"
    "webm_name initiation_fails ''clip.mov'' = ''clip.webm''"
    "md5_hex (upload initiation_fails) ''webm'' = ''0f5a''"
    by (simp_all add: listing_fails_def creation_fails_def initiation_fails_def sample_env_def
        sample_upload_def)
  from remote_failure_exit_codes[OF sample_runs_confirm(1,2), of RemoteServiceError
      "''clip.mov''" 32] l
  have first: "main listing_fails ''clip.mov'' 32 =
     (Raised RemoteServiceError, [Ffmpeg ''clip.mov'' 32, Prompt, ListFolders ''site''], None) \<and>
   exit_code (fst (main listing_fails ''clip.mov'' 32)) = 1"
    by (simp add: names)
  from remote_failure_exit_codes[OF sample_runs_confirm(3,4), of RemoteServiceError
      "''clip.mov''" 32] c
  have second: "main creation_fails ''clip.mov'' 32 =
     (Raised RemoteServiceError,
      [Ffmpeg ''clip.mov'' 32, Prompt, ListFolders ''site'',
       CreateFolder ''site'' ''Video Uploads''], None) \<and>
   exit_code (fst (main creation_fails ''clip.mov'' 32)) = 1"
    by (simp add: names)
  from remote_failure_exit_codes[OF sample_runs_confirm(5,6), where fid="''f4''"
      and s'=site_with_folder and t="[ListFolders ''site'']" and bs="''webm''"
      and x=RemoteServiceError and inp="''clip.mov''" and crf=32] i
  have third: "main initiation_fails ''clip.mov'' 32 =
     (Returned,
      [Ffmpeg ''clip.mov'' 32, Prompt, ListFolders ''site'',
       CreateAsset ''site'' ''f4'' ''clip.webm'' ''0f5a''],
      Some (UploadError RemoteServiceError)) \<and>
   exit_code (fst (main initiation_fails ''clip.mov'' 32)) = 0"
    by (simp add: names basename_def)
  from first second third show ?thesis by simp
qed

text \<open>
  Claim C3 as stated fails: the upload initiation raises, and the process exits with
  code 0 after reporting the error.
\<close>

theorem initiation_failure_exits_0_counterexample:
  "reaches_prompt initiation_fails \<and> user_confirms initiation_fails \<and>
   assets_create (upload initiation_fails) = Inl RemoteServiceError \<and>
   snd (snd (main initiation_fails ''clip.mov'' 32)) = Some (UploadError RemoteServiceError) \<and>
   exit_code (fst (main initiation_fails ''clip.mov'' 32)) = 0"
proof -
  have "upload_local_asset (upload initiation_fails) (site_id initiation_fails) ''f4''
          (''compressed/'' @ webm_name initiation_fails ''clip.mov'') =
        (UploadError RemoteServiceError, [CreateAsset ''site'' ''f4'' ''clip.webm'' ''0f5a''])"
    by (simp add: upload_local_asset_def get_file_md5_contents Let_def initiation_fails_def
        sample_env_def sample_upload_def basename_def)
  then have "main initiation_fails ''clip.mov'' 32 =
     (Returned,
      [Ffmpeg ''clip.mov'' 32, Prompt, ListFolders ''site'',
       CreateAsset ''site'' ''f4'' ''clip.webm'' ''0f5a''],
      Some (UploadError RemoteServiceError))"
    by (simp add: main_confirmed[OF sample_runs_confirm(5,6)] initiation_fails_folder)
  moreover have "assets_create (upload initiation_fails) = Inl RemoteServiceError"
    by (simp add: initiation_fails_def sample_upload_def)
  ultimately show ?thesis by (simp add: sample_runs_confirm)
qed

text \<open>
  Claim C8. In every run in which the line typed at the prompt is "n", the script sends no
  request at all to the remote service or to the storage endpoint (no folder listing or
  creation, no upload initiation, no form upload, no asset listing), and when the prompt
  was shown \<^verbatim>\<open>main\<close> returns and the process exits with code 0.
\<close>

theorem declined_run_makes_no_remote_call:
  assumes "answer e = Some (py_str ''n'')"
  shows "filter is_remote (fst (snd (main e inp crf))) = [] \<and>
         (Prompt \<in> set (fst (snd (main e inp crf))) \<longrightarrow>
            fst (main e inp crf) = Returned \<and> exit_code (fst (main e inp crf)) = 0)"
proof (cases "reaches_prompt e")
  case True
  have "py_str ''n'' \<noteq> py_str ''y''" "py_str ''n'' \<noteq> py_str ''''"
    by (simp_all add: py_str_def)
  with main_at_prompt[OF True, of inp crf] assms
  have "main e inp crf = (Returned, [Ffmpeg inp crf, Prompt], None)"
    by (simp add: lower_strip_n)
  then show ?thesis by simp
next
  case False
  from main_before_prompt[OF False, of inp crf] show ?thesis
    by (simp split: if_splits sum.splits)
qed

theorem declined_run_makes_no_remote_call_witness:
  "Prompt \<in> set (fst (snd (main (sample_env\<lparr>answer := Some (py_str ''n'')\<rparr>) ''clip.mov'' 32))) \<and>
   filter is_remote
     (fst (snd (main (sample_env\<lparr>answer := Some (py_str ''n'')\<rparr>) ''clip.mov'' 32))) = [] \<and>
   fst (main (sample_env\<lparr>answer := Some (py_str ''n'')\<rparr>) ''clip.mov'' 32) = Returned \<and>
   exit_code (fst (main (sample_env\<lparr>answer := Some (py_str ''n'')\<rparr>) ''clip.mov'' 32)) = 0"
proof -
  have h: "answer (sample_env\<lparr>answer := Some (py_str ''n'')\<rparr>) = Some (py_str ''n'')" by simp
  have r: "reaches_prompt (sample_env\<lparr>answer := Some (py_str ''n'')\<rparr>)"
    by (simp add: reaches_prompt_def sample_env_def)
  have "py_str ''n'' \<noteq> py_str ''y''" "py_str ''n'' \<noteq> py_str ''''"
    by (simp_all add: py_str_def)
  with main_at_prompt[OF r, of "''clip.mov''" 32]
  have p: "Prompt \<in> set (fst (snd (main (sample_env\<lparr>answer := Some (py_str ''n'')\<rparr>) ''clip.mov'' 32)))"
    by (simp add: lower_strip_n)
  from declined_run_makes_no_remote_call[OF h, of "''clip.mov''" 32] p
  show ?thesis by simp
qed

lemma strip_eq_Nil: "strip s = [] \<longleftrightarrow> (\<forall>c\<in>set s. py_isspace c)"
proof
  assume "strip s = []"
  then have a: "\<forall>c\<in>set (dropWhile py_isspace s). py_isspace c"
    by (simp add: strip_def)
  have "dropWhile py_isspace s = []"
  proof (rule ccontr)
    assume n: "dropWhile py_isspace s \<noteq> []"
    then have "\<not> py_isspace (hd (dropWhile py_isspace s))" by (rule hd_dropWhile)
    moreover from n have "hd (dropWhile py_isspace s) \<in> set (dropWhile py_isspace s)" by simp
    ultimately show False using a by blast
  qed
  then show "\<forall>c\<in>set s. py_isspace c" by simp
next
  assume "\<forall>c\<in>set s. py_isspace c"
  then show "strip s = []" by (auto simp: strip_def dest: set_dropWhileD)
qed

lemma strip_eq_single:
  "strip s = [c] \<longleftrightarrow>
     \<not> py_isspace c \<and>
     (\<exists>l r. s = l @ [c] @ r \<and> (\<forall>x\<in>set l. py_isspace x) \<and> (\<forall>x\<in>set r. py_isspace x))"
proof
  assume a: "strip s = [c]"
  let ?d = "dropWhile py_isspace s"
  from a have e: "dropWhile py_isspace (rev ?d) = [c]"
    by (simp add: strip_def)
  then have "\<not> py_isspace c" using hd_dropWhile[of py_isspace "rev ?d"] by simp
  moreover have "takeWhile py_isspace (rev ?d) @ [c] = rev ?d"
    using takeWhile_dropWhile_id[of py_isspace "rev ?d"] e by simp
  then have "rev (takeWhile py_isspace (rev ?d) @ [c]) = ?d"
    by (simp only: rev_rev_ident)
  then have "?d = [c] @ rev (takeWhile py_isspace (rev ?d))"
    by simp
  then have "s = takeWhile py_isspace s @ [c] @ rev (takeWhile py_isspace (rev ?d))"
    using takeWhile_dropWhile_id[of py_isspace s] by simp
  moreover have "\<forall>x\<in>set (takeWhile py_isspace s). py_isspace x"
    by (auto dest: set_takeWhileD)
  moreover have "\<forall>x\<in>set (rev (takeWhile py_isspace (rev ?d))). py_isspace x"
    by (auto dest: set_takeWhileD)
  ultimately show "\<not> py_isspace c \<and>
     (\<exists>l r. s = l @ [c] @ r \<and> (\<forall>x\<in>set l. py_isspace x) \<and> (\<forall>x\<in>set r. py_isspace x))"
    by blast
next
  assume "\<not> py_isspace c \<and>
     (\<exists>l r. s = l @ [c] @ r \<and> (\<forall>x\<in>set l. py_isspace x) \<and> (\<forall>x\<in>set r. py_isspace x))"
  then obtain l r where c: "\<not> py_isspace c" and s: "s = l @ [c] @ r"
    and l: "\<forall>x\<in>set l. py_isspace x" and r: "\<forall>x\<in>set r. py_isspace x" by blast
  from l c have "dropWhile py_isspace s = c # r"
    by (simp add: s dropWhile_append)
  moreover from r c have "dropWhile py_isspace (rev r @ [c]) = [c]"
    by (simp add: dropWhile_append)
  ultimately show "strip s = [c]" by (simp add: strip_def)
qed

lemma lower_ucs4_not_Nil:
  assumes "\<forall>c\<ge>128. to_lower_full u c \<noteq> []"
  shows "lower_ucs4 u s i c \<noteq> []"
  using assms by (simp add: lower_ucs4_def)

lemma lowered_rest_eq_Nil:
  assumes "\<forall>c\<ge>128. to_lower_full u c \<noteq> []"
  shows "concat (map (\<lambda>(i, c). lower_ucs4 u s i c) (enumerate n cs)) = [] \<longleftrightarrow> cs = []"
  using lower_ucs4_not_Nil[OF assms] by (cases cs) simp_all

lemma lower_ucs4_y:
  assumes "\<forall>c\<ge>128. to_lower_full u c \<noteq> [121]"
  shows "lower_ucs4 u s i c = [121] \<longleftrightarrow> c = 121 \<or> c = 89"
  using assms by (auto simp: lower_ucs4_def)

lemma lower_eq_Nil:
  assumes "\<forall>c\<ge>128. to_lower_full u c \<noteq> []"
  shows "lower u s = [] \<longleftrightarrow> s = []"
  using lowered_rest_eq_Nil[OF assms, of s 0 s] by (simp add: lower_def)

lemma lower_eq_y:
  assumes "\<forall>c\<ge>128. to_lower_full u c \<noteq> []" and "\<forall>c\<ge>128. to_lower_full u c \<noteq> [121]"
  shows "lower u s = [121] \<longleftrightarrow> s = [121] \<or> s = [89]"
proof (cases s)
  case Nil
  then show ?thesis by (simp add: lower_def)
next
  case (Cons c cs)
  have split: "lower u s =
      lower_ucs4 u s 0 c @ concat (map (\<lambda>(i, c). lower_ucs4 u s i c) (enumerate (Suc 0) cs))"
    by (simp add: lower_def Cons)
  show ?thesis
  proof (cases cs)
    case Nil
    with split Cons lower_ucs4_y[OF assms(2), of s 0 c] show ?thesis by auto
  next
    case (Cons d ds)
    with lowered_rest_eq_Nil[OF assms(1), of s "Suc 0" cs]
    have "concat (map (\<lambda>(i, c). lower_ucs4 u s i c) (enumerate (Suc 0) cs)) \<noteq> []" by simp
    with lower_ucs4_not_Nil[OF assms(1), of s 0 c] split
    have "lower u s \<noteq> [121]"
      by (metis append_eq_Cons_conv append_is_Nil_conv)
    with \<open>s = c # cs\<close> Cons show ?thesis by simp
  qed
qed

text \<open>
  The lines that confirm, when the Unicode table maps no code point above 127 to the
  empty string or to the single letter y: white space only, or one letter y, small or
  capital, with white space around it.
\<close>

lemma confirming_lines:
  assumes "\<forall>c\<ge>128. to_lower_full u c \<noteq> []" and "\<forall>c\<ge>128. to_lower_full u c \<noteq> [121]"
  shows "lower u (strip line) = py_str ''y'' \<or> lower u (strip line) = py_str '''' \<longleftrightarrow>
     (\<forall>c\<in>set line. py_isspace c) \<or>
     (\<exists>l r. (\<forall>x\<in>set l. py_isspace x) \<and> (\<forall>x\<in>set r. py_isspace x) \<and>
            (line = l @ py_str ''y'' @ r \<or> line = l @ py_str ''Y'' @ r))"
proof -
  have lit: "py_str ''y'' = [121]" "py_str ''Y'' = [89]" "py_str '''' = []"
    by (simp_all add: py_str_def)
  have sp: "\<not> py_isspace 121" "\<not> py_isspace 89"
    by (simp_all add: py_isspace_def)
  have "lower u (strip line) = [121] \<longleftrightarrow>
          (\<exists>l r. (\<forall>x\<in>set l. py_isspace x) \<and> (\<forall>x\<in>set r. py_isspace x) \<and>
            (line = l @ [121] @ r \<or> line = l @ [89] @ r))"
    unfolding lower_eq_y[OF assms] strip_eq_single using sp by blast
  moreover have "lower u (strip line) = [] \<longleftrightarrow> (\<forall>c\<in>set line. py_isspace c)"
    by (simp add: lower_eq_Nil[OF assms(1)] strip_eq_Nil)
  ultimately show ?thesis unfolding lit by blast
qed

text \<open>
  Claim C9. In a run that reaches the prompt, when the line typed, stripped of
  surrounding white space and lowered, is "y" or empty, the upload proceeds: \<^verbatim>\<open>main\<close>
  resolves the folder "Video Uploads" and, with the folder id it got, uploads the
  compressed file. With any other line, "yes" included, \<^verbatim>\<open>main\<close> returns after the prompt
  without any request. So the folders are listed exactly when the line is "y" or empty.
\<close>

theorem upload_proceeds_iff_y_or_empty:
  assumes "reaches_prompt e" and "answer e = Some line"
  shows "(lower (unicodedata e) (strip line) = py_str ''y'' \<or>
          lower (unicodedata e) (strip line) = py_str '''' \<longrightarrow>
            main e inp crf =
              (case create_asset_folder (remote_site e) (site_id e) ''Video Uploads'' of
                 (Inl x, s', t') \<Rightarrow> (Raised x, [Ffmpeg inp crf, Prompt] @ t', None)
               | (Inr fid, s', t') \<Rightarrow>
                   if fid \<noteq> []
                   then (case upload_local_asset (upload e) (site_id e) fid
                                (''compressed/'' @ webm_name e inp) of
                           (rep, t'') \<Rightarrow>
                             (Returned, [Ffmpeg inp crf, Prompt] @ t' @ t'', Some rep))
                   else (Returned, [Ffmpeg inp crf, Prompt] @ t', None))) \<and>
         (\<not> (lower (unicodedata e) (strip line) = py_str ''y'' \<or>
             lower (unicodedata e) (strip line) = py_str '''') \<longrightarrow>
            main e inp crf = (Returned, [Ffmpeg inp crf, Prompt], None)) \<and>
         (ListFolders (site_id e) \<in> set (fst (snd (main e inp crf))) \<longleftrightarrow>
            lower (unicodedata e) (strip line) = py_str ''y'' \<or>
            lower (unicodedata e) (strip line) = py_str '''')"
proof (cases "lower (unicodedata e) (strip line) = py_str ''y'' \<or>
              lower (unicodedata e) (strip line) = py_str ''''")
  case True
  with assms(2) have "user_confirms e" by (simp add: user_confirms_def)
  note run = main_confirmed[OF assms(1) this, of inp crf]
  from run create_asset_folder_lists_first[of "site_id e" "remote_site e" "''Video Uploads''"]
  have "ListFolders (site_id e) \<in> set (fst (snd (main e inp crf)))"
    by (auto split: prod.splits sum.splits if_splits)
  with True run show ?thesis by simp
next
  case False
  with main_at_prompt[OF assms(1), of inp crf] assms(2)
  have "main e inp crf = (Returned, [Ffmpeg inp crf, Prompt], None)" by simp
  with False show ?thesis by simp
qed

lemma sample_answers:
  "lower sample_tables (strip (py_str ''yes'')) = py_str ''yes''"
  "lower sample_tables (strip (py_str '' Y  '')) = py_str ''y''"
  "lower sample_tables (strip [8195, 121]) = py_str ''y''"
  by (simp_all add: lower_def strip_def py_str_def py_isspace_def lower_ucs4_def)

lemma sample_poll:
  "poll_for_asset_url ready_at_third ''site'' ''a1'' 20 5 =
     (Some ''https://cdn.example/clip.webm'',
      [ListAssets ''site'', Sleep 5, ListAssets ''site'', Sleep 5, ListAssets ''site''])"
  by code_simp

lemma sample_upload_run:
  "upload_local_asset sample_upload ''site'' ''f9'' ''compressed/clip.webm'' =
     (FileReady ''https://cdn.example/clip.webm'',
      [CreateAsset ''site'' ''f9'' ''clip.webm'' ''0f5a'',
       PostForm ''https://s3.example/upload'' sample_details ''clip.webm'',
       ListAssets ''site'', Sleep 5, ListAssets ''site'', Sleep 5, ListAssets ''site''])"
proof -
  have "file_contents sample_upload = Inr ''webm''" "assets_create sample_upload = Inr sample_init"
    "requests_post sample_upload = Inr 201"
    by (simp_all add: sample_upload_def)
  from upload_after_post[OF this, of "''site''" "''f9''" "''compressed/clip.webm''"] sample_poll
  show ?thesis by (simp add: sample_upload_def sample_init_def basename_def)
qed

lemma sample_folder_run:
  "create_asset_folder sample_site ''site'' ''Video Uploads'' =
     (Inr ''f9'', site_after_create,
      [ListFolders ''site'', CreateFolder ''site'' ''Video Uploads''])"
  by (simp add: create_asset_folder_def list_folders_def create_folder_def sample_site_def
      site_after_create_def Let_def)

theorem upload_proceeds_iff_y_or_empty_witness:
  "main (sample_env\<lparr>answer := Some (py_str ''yes'')\<rparr>) ''clip.mov'' 32 =
     (Returned, [Ffmpeg ''clip.mov'' 32, Prompt], None) \<and>
   main (sample_env\<lparr>answer := Some (py_str '' Y  '')\<rparr>) ''clip.mov'' 32 =
     (Returned,
      [Ffmpeg ''clip.mov'' 32, Prompt, ListFolders ''site'',
       CreateFolder ''site'' ''Video Uploads'',
       CreateAsset ''site'' ''f9'' ''clip.webm'' ''0f5a'',
       PostForm ''https://s3.example/upload'' sample_details ''clip.webm'',
       ListAssets ''site'', Sleep 5, ListAssets ''site'', Sleep 5, ListAssets ''site''],
      Some (FileReady ''https://cdn.example/clip.webm'')) \<and>
   ListFolders ''site'' \<in>
     set (fst (snd (main (sample_env\<lparr>answer := Some [8195, 121]\<rparr>) ''clip.mov'' 32)))"
proof -
  have r: "reaches_prompt (sample_env\<lparr>answer := Some (py_str ''yes'')\<rparr>)"
    "reaches_prompt (sample_env\<lparr>answer := Some (py_str '' Y  '')\<rparr>)"
    "reaches_prompt (sample_env\<lparr>answer := Some [8195, 121]\<rparr>)"
    by (simp_all add: reaches_prompt_def sample_env_def)
  have a: "answer (sample_env\<lparr>answer := Some (py_str ''yes'')\<rparr>) = Some (py_str ''yes'')"
    "answer (sample_env\<lparr>answer := Some (py_str '' Y  '')\<rparr>) = Some (py_str '' Y  '')"
    "answer (sample_env\<lparr>answer := Some [8195, 121]\<rparr>) = Some [8195, 121]"
    by simp_all
  have f: "unicodedata (sample_env\<lparr>answer := Some (py_str ''yes'')\<rparr>) = sample_tables"
    "unicodedata (sample_env\<lparr>answer := Some (py_str '' Y  '')\<rparr>) = sample_tables"
    "unicodedata (sample_env\<lparr>answer := Some [8195, 121]\<rparr>) = sample_tables"
    "site_id (sample_env\<lparr>answer := Some [8195, 121]\<rparr>) = ''site''"
    "site_id (sample_env\<lparr>answer := Some (py_str '' Y  '')\<rparr>) = ''site''"
    "remote_site (sample_env\<lparr>answer := Some (py_str '' Y  '')\<rparr>) = sample_site"
    "upload (sample_env\<lparr>answer := Some (py_str '' Y  '')\<rparr>) = sample_upload"
    "webm_name sample_env ''clip.mov'' = ''clip.webm''"
    by (simp_all add: sample_env_def)
  have n: "py_str ''yes'' \<noteq> py_str ''y''" "py_str ''yes'' \<noteq> py_str ''''"
    by (simp_all add: py_str_def)
  from upload_proceeds_iff_y_or_empty[OF r(1) a(1), of "''clip.mov''" 32] n
  have declined: "main (sample_env\<lparr>answer := Some (py_str ''yes'')\<rparr>) ''clip.mov'' 32 =
     (Returned, [Ffmpeg ''clip.mov'' 32, Prompt], None)"
    by (simp add: f sample_answers)
  from upload_proceeds_iff_y_or_empty[OF r(2) a(2), of "''clip.mov''" 32]
  have accepted: "main (sample_env\<lparr>answer := Some (py_str '' Y  '')\<rparr>) ''clip.mov'' 32 =
     (Returned,
      [Ffmpeg ''clip.mov'' 32, Prompt, ListFolders ''site'',
       CreateFolder ''site'' ''Video Uploads'',
       CreateAsset ''site'' ''f9'' ''clip.webm'' ''0f5a'',
       PostForm ''https://s3.example/upload'' sample_details ''clip.webm'',
       ListAssets ''site'', Sleep 5, ListAssets ''site'', Sleep 5, ListAssets ''site''],
      Some (FileReady ''https://cdn.example/clip.webm''))"
    by (simp add: f sample_answers sample_folder_run sample_upload_run)
  from upload_proceeds_iff_y_or_empty[OF r(3) a(3), of "''clip.mov''" 32,
      THEN conjunct2, THEN conjunct2]
  have spaced: "ListFolders ''site'' \<in>
     set (fst (snd (main (sample_env\<lparr>answer := Some [8195, 121]\<rparr>) ''clip.mov'' 32)))"
    by (simp add: f sample_answers)
  from declined accepted spaced show ?thesis by simp
qed

text \<open>
  Claim C10, as amended. When the input file has length zero, the prompt is never shown
  and the process exits with code 1. If such a run gets through the compression, it
  ends in the size comparison: with the exception of the division by \<open>original_size\<close>
  when the size of the compressed file can be read, and with the exception of
  \<^verbatim>\<open>compressed_path.stat()\<close> otherwise. When the input file is not empty, the run gets
  through the compression and both sizes can be read, the comparison is computed and the
  prompt is shown.
\<close>

theorem empty_input_divides_by_zero:
  "(original_size e = Inr 0 \<longrightarrow>
      Prompt \<notin> set (fst (snd (main e inp crf))) \<and> exit_code (fst (main e inp crf)) = 1 \<and>
      (is_file e \<and> mkdir_ok e \<and> ffmpeg e = FfmpegOk \<and> new_size e = Inr new \<longrightarrow>
         main e inp crf = (Raised ZeroDivisionError, [Ffmpeg inp crf], None)) \<and>
      (is_file e \<and> mkdir_ok e \<and> ffmpeg e = FfmpegOk \<and> new_size e = Inl x \<longrightarrow>
         main e inp crf = (Raised x, [Ffmpeg inp crf], None))) \<and>
   (is_file e \<and> mkdir_ok e \<and> ffmpeg e = FfmpegOk \<and>
    original_size e = Inr original \<and> original \<noteq> 0 \<and> new_size e = Inr new \<longrightarrow>
      Prompt \<in> set (fst (snd (main e inp crf))))"
proof (intro conjI impI)
  assume z: "original_size e = Inr 0"
  then have n: "\<not> reaches_prompt e" by (simp add: reaches_prompt_def)
  note before = main_before_prompt[OF n, of inp crf]
  from before z show "Prompt \<notin> set (fst (snd (main e inp crf)))"
    by (simp split: if_splits sum.splits)
  from before z show "exit_code (fst (main e inp crf)) = 1"
    by (simp split: if_splits sum.splits)
  {
    assume "is_file e \<and> mkdir_ok e \<and> ffmpeg e = FfmpegOk \<and> new_size e = Inr new"
    with before z show "main e inp crf = (Raised ZeroDivisionError, [Ffmpeg inp crf], None)"
      by simp
  }
  {
    assume "is_file e \<and> mkdir_ok e \<and> ffmpeg e = FfmpegOk \<and> new_size e = Inl x"
    with before z show "main e inp crf = (Raised x, [Ffmpeg inp crf], None)"
      by simp
  }
next
  assume "is_file e \<and> mkdir_ok e \<and> ffmpeg e = FfmpegOk \<and>
    original_size e = Inr original \<and> original \<noteq> 0 \<and> new_size e = Inr new"
  then have "reaches_prompt e" by (simp add: reaches_prompt_def)
  from main_at_prompt[OF this, of inp crf]
  show "Prompt \<in> set (fst (snd (main e inp crf)))"
    by (auto split: option.splits prod.splits sum.splits if_splits)
qed

theorem empty_input_divides_by_zero_witness:
  "main (sample_env\<lparr>original_size := Inr 0\<rparr>) ''clip.mov'' 32 =
     (Raised ZeroDivisionError, [Ffmpeg ''clip.mov'' 32], None) \<and>
   exit_code (fst (main (sample_env\<lparr>original_size := Inr 0\<rparr>) ''clip.mov'' 32)) = 1 \<and>
   main output_missing ''clip.mov'' 32 =
     (Raised FileNotFoundError, [Ffmpeg ''clip.mov'' 32], None) \<and>
   Prompt \<in> set (fst (snd (main sample_env ''clip.mov'' 32)))"
proof -
  have z: "original_size (sample_env\<lparr>original_size := Inr 0\<rparr>) = Inr 0" by simp
  have c: "is_file (sample_env\<lparr>original_size := Inr 0\<rparr>) \<and>
           mkdir_ok (sample_env\<lparr>original_size := Inr 0\<rparr>) \<and>
           ffmpeg (sample_env\<lparr>original_size := Inr 0\<rparr>) = FfmpegOk \<and>
           new_size (sample_env\<lparr>original_size := Inr 0\<rparr>) = Inr 2097152"
    by (simp add: sample_env_def)
  have m: "original_size output_missing = Inr 0"
    "is_file output_missing \<and> mkdir_ok output_missing \<and> ffmpeg output_missing = FfmpegOk \<and>
     new_size output_missing = Inl FileNotFoundError"
    by (simp_all add: output_missing_def sample_env_def)
  have d: "is_file sample_env \<and> mkdir_ok sample_env \<and> ffmpeg sample_env = FfmpegOk \<and>
           original_size sample_env = Inr 10485760 \<and> (10485760::nat) \<noteq> 0 \<and>
           new_size sample_env = Inr 2097152"
    by (simp add: sample_env_def)
  from empty_input_divides_by_zero[of "sample_env\<lparr>original_size := Inr 0\<rparr>" "''clip.mov''" 32
      2097152]
    empty_input_divides_by_zero[of output_missing "''clip.mov''" 32 _ FileNotFoundError]
    empty_input_divides_by_zero[of sample_env "''clip.mov''" 32 2097152 _ 10485760] z c m d
  show ?thesis by simp
qed

text \<open>
  Claim C10 as stated fails: the input file is empty and the transcoder ends with status 0
  without leaving an output file; the size comparison then ends with the exception of
  \<^verbatim>\<open>compressed_path.stat()\<close>, before the division.
\<close>

theorem empty_input_output_missing_counterexample:
  "original_size output_missing = Inr 0 \<and> is_file output_missing \<and> mkdir_ok output_missing \<and>
   ffmpeg output_missing = FfmpegOk \<and>
   main output_missing ''clip.mov'' 32 =
     (Raised FileNotFoundError, [Ffmpeg ''clip.mov'' 32], None)"
  by (simp add: output_missing_def sample_env_def main_def compress_video_def)

end
